theory Spec2Isabelle
  imports Main "HOL-Library.Multiset"
begin

section \<open>Data model\<close>

text \<open>
  Python strings are modelled as \<open>string\<close>. Timestamps (\<open>datetime.utcnow()\<close>) are
  natural numbers: microseconds since the epoch, compared as the database compares them.
  The row type follows the class \<open>ChatMessage\<close> of \<open>main.py\<close>; the primary key
  \<open>id\<close> is the field \<open>msg_id\<close>, and the nullable column \<open>original_audio_url\<close>
  is an option.
\<close>

record ChatMessage =
  msg_id :: nat
  role :: string
  original_text :: string
  translated_text :: string
  original_lang :: string
  target_lang :: string
  original_audio_url :: "string option"
  timestamp :: nat

text \<open>The request body of \<open>POST /chat/text\<close> (class \<open>MessageCreate\<close>).\<close>

record MessageCreate =
  mc_role :: string
  mc_text :: string
  mc_target_lang :: string

text \<open>The uploaded file of \<open>POST /chat/audio\<close>: its client-side name and its bytes.\<close>

record UploadFile =
  filename :: string
  content :: string

text \<open>
  An exception is represented by \<open>str(e)\<close>, the only thing the handlers read from it.
\<close>

datatype py_exception = PyExc (str_of: string)

text \<open>
  A chat completion as far as the code reads it: the list \<open>choices\<close>, each choice
  carrying \<open>message.content\<close>, which the provider may leave null.
\<close>

record completion =
  choices :: "string option list"

text \<open>
  The two requests the code sends to the provider. A chat request has the model name and
  the list of (role, content) messages; a transcription request has the model name, the
  file name and the bytes read back from the stored file. (The sampling temperature of
  the translation request is a floating-point constant that no handler reads back; it
  is not part of the model.)
\<close>

datatype provider_call =
  ChatCompletion string "(string \<times> string) list"
| Transcription string string string

text \<open>
  Everything a request handler obtains from outside during one request: the provider's
  answers (an exception or a value), the UUID generator, the clock, and whether opening
  a path for writing succeeds.
\<close>

record env =
  chat_create :: "provider_call \<Rightarrow> py_exception + completion"
  transcriptions_create :: "provider_call \<Rightarrow> py_exception + string"
  uuid4 :: string
  utcnow :: nat
  open_wb :: "string \<Rightarrow> py_exception option"

text \<open>
  The state the handlers act on: the table \<open>messages\<close> in rowid order, the files under
  the working directory, and the trace of calls issued to the provider (most recent last).
\<close>

record state =
  messages :: "ChatMessage list"
  files :: "string \<rightharpoonup> string"
  calls :: "provider_call list"

definition init_state :: state where
  "init_state = \<lparr>messages = [], files = Map.empty, calls = []\<rparr>"

section \<open>String helpers of the Python runtime\<close>

text \<open>
  \<open>str.isspace\<close> on the ASCII range: tab, line feed, vertical tab, form feed, carriage
  return, the four separators 0x1C..0x1F and the space.
\<close>

definition is_space :: "char \<Rightarrow> bool" where
  "is_space c = (let n = (of_char c :: nat) in (9 \<le> n \<and> n \<le> 13) \<or> (28 \<le> n \<and> n \<le> 32))"

definition lstrip :: "(char \<Rightarrow> bool) \<Rightarrow> string \<Rightarrow> string" where
  "lstrip P s = dropWhile P s"

definition rstrip :: "(char \<Rightarrow> bool) \<Rightarrow> string \<Rightarrow> string" where
  "rstrip P s = rev (dropWhile P (rev s))"

text \<open>\<open>s.strip()\<close> is \<open>strip is_space s\<close>; \<open>s.strip('"')\<close> is \<open>strip is_quote s\<close>.\<close>

definition strip :: "(char \<Rightarrow> bool) \<Rightarrow> string \<Rightarrow> string" where
  "strip P s = rstrip P (lstrip P s)"

definition is_quote :: "char \<Rightarrow> bool" where
  "is_quote c = (c = CHR 0x22)"

text \<open>
  \<open>str.upper\<close> on ASCII letters; every other character is left as it is. The capital
  of a letter in \<open>a..z\<close> (codes 97..122) is 32 below it: the same bits with bit 5 cleared.
\<close>

definition upper_char :: "char \<Rightarrow> char" where
  "upper_char c =
     (let n = (of_char c :: nat)
      in if 97 \<le> n \<and> n \<le> 122
         then (case c of Char b0 b1 b2 b3 b4 b5 b6 b7 \<Rightarrow> Char b0 b1 b2 b3 b4 False b6 b7)
         else c)"

definition upper :: "string \<Rightarrow> string" where
  "upper s = map upper_char s"

text \<open>
  \<open>s.split(sep)\<close> for a one-character separator: the pieces between the separators, in
  order; the list is never empty. The accumulator is the piece being read.
\<close>

fun split_acc :: "char \<Rightarrow> string \<Rightarrow> string \<Rightarrow> string list" where
  "split_acc sep acc [] = [acc]"
| "split_acc sep acc (c # cs) =
     (if c = sep then acc # split_acc sep [] cs else split_acc sep (acc @ [c]) cs)"

definition split :: "char \<Rightarrow> string \<Rightarrow> string list" where
  "split sep s = split_acc sep [] s"

section \<open>The persistence layer\<close>

text \<open>
  \<open>db.add; db.commit; db.refresh\<close>: the row gets the next rowid (one more than the
  largest in the table) and the column default \<open>datetime.utcnow\<close>, and is appended.
\<close>

definition next_id :: "ChatMessage list \<Rightarrow> nat" where
  "next_id rows = Suc (fold max (map msg_id rows) 0)"

definition db_insert :: "env \<Rightarrow> ChatMessage \<Rightarrow> state \<Rightarrow> ChatMessage \<times> state" where
  "db_insert e m st =
     (let m' = m\<lparr>msg_id := next_id (messages st), timestamp := utcnow e\<rparr>
      in (m', st\<lparr>messages := messages st @ [m']\<rparr>))"

text \<open>
  \<open>order_by(ChatMessage.timestamp)\<close>: the rows sorted by timestamp, ascending; rows
  with equal timestamps stay in rowid order.
\<close>

definition order_by_timestamp :: "ChatMessage list \<Rightarrow> ChatMessage list" where
  "order_by_timestamp rows = sort_key timestamp rows"

section \<open>The helper \<open>perform_translation\<close>\<close>

definition system_prompt :: "string \<Rightarrow> string" where
  "system_prompt lang =
     ''You are a professional medical translator. '' @
     ''Translate the following text into '' @ lang @ ''. '' @
     ''Do not explain. Do not add notes. Just return the translated text.''"

definition translation_request :: "string \<Rightarrow> string \<Rightarrow> provider_call" where
  "translation_request text lang =
     ChatCompletion ''llama-3.3-70b-versatile''
       [(''system'', system_prompt lang), (''user'', text)]"

text \<open>
  \<open>completion.choices[0].message.content\<close>: an empty list of choices raises IndexError.
\<close>

definition first_content :: "completion \<Rightarrow> py_exception + string option" where
  "first_content c =
     (case choices c of
        [] \<Rightarrow> Inl (PyExc ''list index out of range'')
      | x # _ \<Rightarrow> Inr x)"

text \<open>The message of the AttributeError raised by \<open>None.strip()\<close>.\<close>

definition none_has_no_strip :: string where
  "none_has_no_strip =
     [CHR 0x27] @ ''NoneType'' @ [CHR 0x27] @ '' object has no attribute '' @
     [CHR 0x27] @ ''strip'' @ [CHR 0x27]"

text \<open>
  The body of the \<open>try\<close> block of \<open>perform_translation\<close>: the provider call, then
  \<open>.content.strip().strip('"')\<close>, which raises AttributeError on a null content.
\<close>

definition translation_try :: "env \<Rightarrow> string \<Rightarrow> string \<Rightarrow> py_exception + string" where
  "translation_try e text lang =
     (case chat_create e (translation_request text lang) of
        Inl ex \<Rightarrow> Inl ex
      | Inr c \<Rightarrow>
          (case first_content c of
             Inl ex \<Rightarrow> Inl ex
           | Inr None \<Rightarrow> Inl (PyExc none_has_no_strip)
           | Inr (Some s) \<Rightarrow> Inr (strip is_quote (strip is_space s))))"

text \<open>
  \<open>perform_translation\<close> catches every exception of the block and returns a marker
  string. The call is recorded in the trace whatever its outcome.
\<close>

definition perform_translation :: "env \<Rightarrow> string \<Rightarrow> string \<Rightarrow> state \<Rightarrow> string \<times> state" where
  "perform_translation e text lang st =
     (let st' = st\<lparr>calls := calls st @ [translation_request text lang]\<rparr>
      in case translation_try e text lang of
           Inr s \<Rightarrow> (s, st')
         | Inl ex \<Rightarrow> (''[Translation Error] '' @ str_of ex, st'))"

section \<open>The endpoints\<close>

text \<open>
  \<open>POST /chat/text\<close>. The row is built with id and timestamp not yet assigned (written
  as 0 here); \<open>db_insert\<close> assigns both, and the handler returns the refreshed row.
\<close>

definition chat_text :: "env \<Rightarrow> MessageCreate \<Rightarrow> state \<Rightarrow> ChatMessage \<times> state" where
  "chat_text e msg st =
     (let (translated, st1) = perform_translation e (mc_text msg) (mc_target_lang msg) st;
          db_msg = \<lparr>msg_id = 0, role = mc_role msg, original_text = mc_text msg,
                    translated_text = translated, original_lang = ''Auto'',
                    target_lang = mc_target_lang msg, original_audio_url = None,
                    timestamp = 0\<rparr>
      in db_insert e db_msg st1)"

text \<open>Step 1 of \<open>POST /chat/audio\<close>: the names derived from the uploaded file's name.\<close>

definition file_ext :: "UploadFile \<Rightarrow> string" where
  "file_ext file = last (split CHR ''.'' (filename file))"

definition blob_filename :: "env \<Rightarrow> UploadFile \<Rightarrow> string" where
  "blob_filename e file = ''audio_'' @ uuid4 e @ ''.'' @ file_ext file"

definition file_path :: "env \<Rightarrow> UploadFile \<Rightarrow> string" where
  "file_path e file = ''static/audio/'' @ blob_filename e file"

definition audio_url :: "env \<Rightarrow> UploadFile \<Rightarrow> string" where
  "audio_url e file = ''/static/audio/'' @ blob_filename e file"

definition transcription_request :: "env \<Rightarrow> UploadFile \<Rightarrow> string \<Rightarrow> provider_call" where
  "transcription_request e file bytes =
     Transcription ''whisper-large-v3'' (blob_filename e file) bytes"

text \<open>
  Step 2, the \<open>try\<close> block around the transcription: the stored file is read back and
  sent to the provider; the answer is stripped of surrounding whitespace. Any exception,
  also a failure to read the file, becomes the marker string. The provider call is
  recorded only if the file could be read. \<open>no_such_file\<close> is the text of the
  FileNotFoundError that \<open>open(file_path, "rb")\<close> raises on a missing file.
\<close>

definition no_such_file :: "string \<Rightarrow> string" where
  "no_such_file path =
     ''[Errno 2] No such file or directory: '' @ [CHR 0x27] @ path @ [CHR 0x27]"

definition transcribe_step :: "env \<Rightarrow> UploadFile \<Rightarrow> state \<Rightarrow> string \<times> state" where
  "transcribe_step e file st =
     (case files st (file_path e file) of
        None \<Rightarrow> (''[Transcription Error: '' @ no_such_file (file_path e file) @ '']'', st)
      | Some bytes \<Rightarrow>
          (let req = transcription_request e file bytes;
               st' = st\<lparr>calls := calls st @ [req]\<rparr>
           in case transcriptions_create e req of
                Inr transcription \<Rightarrow> (strip is_space transcription, st')
              | Inl ex \<Rightarrow> (''[Transcription Error: '' @ str_of ex @ '']'', st')))"

text \<open>
  \<open>POST /chat/audio\<close>. Opening the target path for writing and copying the upload are
  outside every \<open>try\<close>: a failure there ends the request with the exception, and
  nothing has been written.
\<close>

definition chat_audio ::
  "env \<Rightarrow> string \<Rightarrow> string \<Rightarrow> UploadFile \<Rightarrow> state \<Rightarrow> py_exception + ChatMessage \<times> state" where
  "chat_audio e role_in lang file st =
     (case open_wb e (file_path e file) of
        Some ex \<Rightarrow> Inl ex
      | None \<Rightarrow>
          (let st0 = st\<lparr>files := (files st)(file_path e file \<mapsto> content file)\<rparr>;
               (original, st1) = transcribe_step e file st0;
               (translated, st2) = perform_translation e original lang st1;
               db_msg = \<lparr>msg_id = 0, role = role_in, original_text = original,
                         translated_text = translated, original_lang = ''Audio-Auto'',
                         target_lang = lang,
                         original_audio_url = Some (audio_url e file),
                         timestamp = 0\<rparr>
           in Inr (db_insert e db_msg st2)))"

text \<open>\<open>GET /history\<close>: a read of the table, ordered by timestamp.\<close>

definition get_history :: "state \<Rightarrow> ChatMessage list" where
  "get_history st = order_by_timestamp (messages st)"

text \<open>
  \<open>GET /summarize\<close>. The query is \<open>db.query(ChatMessage).all()\<close>, with no ordering
  clause: the rows come in rowid order. The loop appends one line per row to the
  transcript.
\<close>

definition transcript_line :: "ChatMessage \<Rightarrow> string" where
  "transcript_line m =
     upper (role m) @ '': '' @ translated_text m @ '' (Original: '' @ original_text m @
     '')'' @ [CHR 0x0A]"

fun build_transcript :: "string \<Rightarrow> ChatMessage list \<Rightarrow> string" where
  "build_transcript transcript [] = transcript"
| "build_transcript transcript (m # ms) = build_transcript (transcript @ transcript_line m) ms"

definition summary_prompt :: "string \<Rightarrow> string" where
  "summary_prompt transcript =
     ''You are a medical scribe. Summarize the following consultation.'' @ [CHR 0x0A] @
     ''Format strictly as:'' @ [CHR 0x0A] @
     ''**PATIENT SYMPTOMS:** ...'' @ [CHR 0x0A] @
     ''**DIAGNOSIS:** ...'' @ [CHR 0x0A] @
     ''**MEDICATIONS/PLAN:** ...'' @ [CHR 0x0A, CHR 0x0A] @
     ''TRANSCRIPT:'' @ [CHR 0x0A] @ transcript"

definition summary_request :: "string \<Rightarrow> provider_call" where
  "summary_request transcript =
     ChatCompletion ''llama-3.3-70b-versatile'' [(''user'', summary_prompt transcript)]"

text \<open>
  The value under the key \<open>summary\<close> of the returned object: a string, or null when the
  provider's first choice has a null content.
\<close>

definition generate_summary :: "env \<Rightarrow> state \<Rightarrow> string option \<times> state" where
  "generate_summary e st =
     (let rows = messages st
      in if rows = [] then (Some ''No conversation logs found.'', st)
         else
           (let transcript = build_transcript [] rows;
                req = summary_request transcript;
                st' = st\<lparr>calls := calls st @ [req]\<rparr>
            in case chat_create e req of
                 Inl ex \<Rightarrow> (Some (''Summary failed: '' @ str_of ex), st')
               | Inr c \<Rightarrow>
                   (case first_content c of
                      Inl ex \<Rightarrow> (Some (''Summary failed: '' @ str_of ex), st')
                    | Inr s \<Rightarrow> (s, st'))))"

text \<open>
  The states the service can reach from the empty one, each with the origin of every
  row of the table, in rowid order. A failed audio request leaves the state as it was;
  reading the history changes nothing.
\<close>

datatype origin = FromText | FromAudio

inductive reach :: "origin list \<Rightarrow> state \<Rightarrow> bool" where
  reach_init: "reach [] init_state"
| reach_text: "reach os st \<Longrightarrow> chat_text e msg st = (m, st') \<Longrightarrow> reach (os @ [FromText]) st'"
| reach_audio:
    "reach os st \<Longrightarrow> chat_audio e r lang file st = Inr (m, st') \<Longrightarrow>
     reach (os @ [FromAudio]) st'"
| reach_summary: "reach os st \<Longrightarrow> generate_summary e st = (s, st') \<Longrightarrow> reach os st'"

section \<open>Reference definition and example inputs\<close>

text \<open>
  The part of a string after the last occurrence of a separator, and the whole string
  when the separator does not occur: what ``the extension of a file name'' means, stated
  without \<open>split\<close>.
\<close>

definition after_last :: "char \<Rightarrow> string \<Rightarrow> string" where
  "after_last sep s = rev (takeWhile (\<lambda>c. c \<noteq> sep) (rev s))"

text \<open>
  Example environments. \<open>stub_ok\<close> is a provider that answers; \<open>stub_down\<close> is one
  that fails every call; \<open>stub_quoted\<close> and \<open>stub_padded\<close> answer a translation with
  quotes and whitespace around the text.
\<close>

definition stub_answer :: "provider_call \<Rightarrow> string" where
  "stub_answer req =
     (if req = translation_request ''Gracias'' ''English'' then ''Thank you''
      else ''Tome dos tabletas al d'' @ [CHR 0xC3, CHR 0xAD] @ ''a'')"

definition stub_ok :: env where
  "stub_ok =
     \<lparr>chat_create = (\<lambda>req. Inr \<lparr>choices = [Some (stub_answer req)]\<rparr>),
      transcriptions_create = (\<lambda>_. Inr '' Me duele la cabeza ''),
      uuid4 = ''123e4567-e89b-42d3-a456-426614174000'',
      utcnow = 10,
      open_wb = (\<lambda>_. None)\<rparr>"

definition stub_down :: env where
  "stub_down =
     \<lparr>chat_create = (\<lambda>_. Inl (PyExc ''Connection error.'')),
      transcriptions_create = (\<lambda>_. Inl (PyExc ''Connection error.'')),
      uuid4 = ''9f1c2d3e-0000-4000-8000-000000000001'',
      utcnow = 20,
      open_wb = (\<lambda>_. None)\<rparr>"

definition stub_quoted :: env where
  "stub_quoted = stub_ok\<lparr>chat_create :=
     (\<lambda>_. Inr \<lparr>choices = [Some ([CHR 0x22] @ '' hola '' @ [CHR 0x22])]\<rparr>)\<rparr>"

definition stub_padded :: env where
  "stub_padded = stub_ok\<lparr>chat_create :=
     (\<lambda>_. Inr \<lparr>choices = [Some ('' '' @ [CHR 0x22] @ ''Hola'' @ [CHR 0x22, CHR 0x0A])]\<rparr>)\<rparr>"

text \<open>Example requests.\<close>

definition tablets :: MessageCreate where
  "tablets = \<lparr>mc_role = ''doctor'', mc_text = ''Take two tablets daily'',
               mc_target_lang = ''Spanish''\<rparr>"

definition thanks :: MessageCreate where
  "thanks = \<lparr>mc_role = ''patient'', mc_text = ''Gracias'', mc_target_lang = ''English''\<rparr>"

definition voice_note :: UploadFile where
  "voice_note = \<lparr>filename = ''voice.note.webm'', content = ''RIFF''\<rparr>"

definition recording :: UploadFile where
  "recording = \<lparr>filename = ''recording'', content = ''OggS''\<rparr>"

text \<open>
  Two text messages, the second stored after the wall clock was set back: its row comes
  later in the table and has the smaller timestamp.
\<close>

definition clock_back :: state where
  "clock_back =
     snd (chat_text (stub_ok\<lparr>utcnow := 5\<rparr>) thanks (snd (chat_text stub_ok tablets init_state)))"

text \<open>A text message followed by an audio message.\<close>

definition text_then_audio :: state where
  "text_then_audio =
     snd (projr (chat_audio stub_ok ''patient'' ''English'' voice_note
       (snd (chat_text stub_ok tablets init_state))))"

section \<open>Facts about the string helpers\<close>

lemma lstrip_head: "lstrip P s \<noteq> [] \<Longrightarrow> \<not> P (hd (lstrip P s))"
  unfolding lstrip_def by (simp add: hd_dropWhile)

lemma rstrip_last: "rstrip P s \<noteq> [] \<Longrightarrow> \<not> P (last (rstrip P s))"
  unfolding rstrip_def by (simp add: last_rev hd_dropWhile)

lemma rstrip_head: "rstrip P s \<noteq> [] \<Longrightarrow> hd (rstrip P s) = hd s"
proof (induction s rule: rev_induct)
  case Nil
  then show ?case by (simp add: rstrip_def)
next
  case (snoc x xs)
  show ?case
  proof (cases "P x")
    case True
    with snoc have ne: "rstrip P xs \<noteq> []" by (simp add: rstrip_def)
    then have "xs \<noteq> []" by (auto simp: rstrip_def)
    with snoc.IH [OF ne] True show ?thesis by (simp add: rstrip_def)
  next
    case False
    then show ?thesis by (simp add: rstrip_def)
  qed
qed

lemma strip_ends:
  "strip P s \<noteq> [] \<Longrightarrow> \<not> P (hd (strip P s)) \<and> \<not> P (last (strip P s))"
proof -
  assume ne: "strip P s \<noteq> []"
  then have l: "lstrip P s \<noteq> []" by (auto simp: strip_def rstrip_def)
  have "hd (strip P s) = hd (lstrip P s)"
    using ne rstrip_head [of P "lstrip P s"] by (simp add: strip_def)
  with lstrip_head [OF l] rstrip_last [of P "lstrip P s"] ne
  show ?thesis by (simp add: strip_def)
qed

lemma split_acc_nonempty: "split_acc sep acc s \<noteq> []"
  by (induction s arbitrary: acc) auto

lemma split_acc_last:
  "last (split_acc sep acc s) = (if sep \<in> set s then rev (takeWhile (\<lambda>c. c \<noteq> sep) (rev s))
     else acc @ s)"
proof (induction s arbitrary: acc)
  case Nil
  then show ?case by simp
next
  case (Cons c cs)
  have ne: "split_acc sep a cs \<noteq> []" for a by (rule split_acc_nonempty)
  show ?case
  proof (cases "c = sep")
    case True
    then show ?thesis using Cons.IH [of "[]"] ne
      by (auto simp: takeWhile_append)
  next
    case False
    then show ?thesis using Cons.IH [of "acc @ [c]"]
      by (auto simp: takeWhile_append)
  qed
qed

lemma split_acc_no_sep: "sep \<notin> set s \<Longrightarrow> split_acc sep acc s = [acc @ s]"
  by (induction s arbitrary: acc) auto

lemma file_ext_after_last: "file_ext file = after_last CHR ''.'' (filename file)"
proof (cases "CHR ''.'' \<in> set (filename file)")
  case True
  then show ?thesis by (simp add: file_ext_def split_def split_acc_last after_last_def)
next
  case False
  then have tw: "takeWhile (\<lambda>c. c \<noteq> CHR ''.'') (rev (filename file)) = rev (filename file)"
    by (auto simp: takeWhile_eq_all_conv)
  have "file_ext file = filename file"
    using False by (simp add: file_ext_def split_def split_acc_no_sep)
  then show ?thesis unfolding after_last_def tw by simp
qed

lemma file_ext_no_dot: "CHR ''.'' \<notin> set (filename file) \<Longrightarrow> file_ext file = filename file"
  by (simp add: file_ext_def split_def split_acc_no_sep)

lemma build_transcript_concat:
  "build_transcript acc ms = acc @ concat (map transcript_line ms)"
  by (induction ms arbitrary: acc) auto

section \<open>What each handler computes\<close>

lemma perform_translation_fst:
  "fst (perform_translation e text lang st) =
     (case translation_try e text lang of
        Inr s \<Rightarrow> s | Inl ex \<Rightarrow> ''[Translation Error] '' @ str_of ex)"
  by (simp add: perform_translation_def Let_def split: sum.splits)

lemma perform_translation_snd:
  "snd (perform_translation e text lang st) =
     st\<lparr>calls := calls st @ [translation_request text lang]\<rparr>"
  by (simp add: perform_translation_def Let_def split: sum.splits)

text \<open>
  The \<open>try\<close> block fails exactly when the provider call raises, when the list of
  choices is empty, or when the first content is null.
\<close>

lemma translation_try_Inl_iff:
  "(\<exists>ex. translation_try e text lang = Inl ex) \<longleftrightarrow>
     (case chat_create e (translation_request text lang) of
        Inl ex \<Rightarrow> True
      | Inr c \<Rightarrow> choices c = [] \<or> hd (choices c) = None)"
  by (auto simp: translation_try_def first_content_def split: sum.splits list.splits option.splits)

lemma chat_text_eq:
  "chat_text e msg st =
     (let t = fst (perform_translation e (mc_text msg) (mc_target_lang msg) st);
          m = \<lparr>msg_id = next_id (messages st), role = mc_role msg,
                original_text = mc_text msg, translated_text = t, original_lang = ''Auto'',
                target_lang = mc_target_lang msg, original_audio_url = None,
                timestamp = utcnow e\<rparr>
      in (m, st\<lparr>messages := messages st @ [m],
                 calls := calls st @ [translation_request (mc_text msg) (mc_target_lang msg)]\<rparr>))"
  by (simp add: chat_text_def db_insert_def Let_def split_beta perform_translation_snd)

lemma transcribe_step_written:
  "transcribe_step e file (st\<lparr>files := (files st)(file_path e file \<mapsto> content file)\<rparr>) =
     (case transcriptions_create e (transcription_request e file (content file)) of
        Inr t \<Rightarrow> strip is_space t
      | Inl ex \<Rightarrow> ''[Transcription Error: '' @ str_of ex @ '']'',
      st\<lparr>files := (files st)(file_path e file \<mapsto> content file),
         calls := calls st @ [transcription_request e file (content file)]\<rparr>)"
  by (simp add: transcribe_step_def Let_def split: sum.splits)

lemma chat_audio_eq:
  "open_wb e (file_path e file) = None \<Longrightarrow>
   chat_audio e r lang file st =
     (let original = (case transcriptions_create e (transcription_request e file (content file)) of
                        Inr t \<Rightarrow> strip is_space t
                      | Inl ex \<Rightarrow> ''[Transcription Error: '' @ str_of ex @ '']'');
          t = fst (perform_translation e original lang st);
          m = \<lparr>msg_id = next_id (messages st), role = r,
                original_text = original, translated_text = t, original_lang = ''Audio-Auto'',
                target_lang = lang, original_audio_url = Some (audio_url e file),
                timestamp = utcnow e\<rparr>
      in Inr (m, st\<lparr>messages := messages st @ [m],
                 files := (files st)(file_path e file \<mapsto> content file),
                 calls := calls st @ [transcription_request e file (content file),
                                      translation_request original lang]\<rparr>))"
  by (simp add: chat_audio_def transcribe_step_written db_insert_def Let_def split_beta
      perform_translation_snd perform_translation_fst)

lemma chat_audio_Inl:
  "open_wb e (file_path e file) = Some ex \<Longrightarrow> chat_audio e r lang file st = Inl ex"
  by (simp add: chat_audio_def)

lemma chat_audio_Inr_open:
  "chat_audio e r lang file st = Inr x \<Longrightarrow> open_wb e (file_path e file) = None"
  by (cases "open_wb e (file_path e file)") (simp_all add: chat_audio_Inl)

text \<open>Every request that stores a row appends it; no request changes or removes a row.\<close>

lemma chat_text_appends:
  "chat_text e msg st = (m, st') \<Longrightarrow>
   messages st' = messages st @ [m] \<and> original_audio_url m = None"
  by (auto simp: chat_text_eq Let_def)

lemma chat_audio_appends:
  assumes "chat_audio e r lang file st = Inr (m, st')"
  shows "messages st' = messages st @ [m] \<and> original_audio_url m = Some (audio_url e file)"
proof -
  have "open_wb e (file_path e file) = None"
    using assms by (rule chat_audio_Inr_open)
  from chat_audio_eq [OF this, of r lang st] assms show ?thesis
    by (auto simp: Let_def)
qed

lemma generate_summary_messages: "messages (snd (generate_summary e st)) = messages st"
  by (simp add: generate_summary_def Let_def split: sum.splits)

lemma generate_summary_keeps:
  "generate_summary e st = (s, st') \<Longrightarrow> messages st' = messages st"
  using generate_summary_messages [of e st] by simp

lemma generate_summary_nonempty:
  "messages st \<noteq> [] \<Longrightarrow>
   snd (generate_summary e st) =
     st\<lparr>calls := calls st @ [summary_request (concat (map transcript_line (messages st)))]\<rparr>"
  by (simp add: generate_summary_def Let_def build_transcript_concat
      split: sum.splits)

text \<open>
  Ordering by timestamp leaves a table alone whose timestamps already ascend in rowid
  order, so there the summary's transcript follows the history.
\<close>

lemma sorted_order_by: "sorted (map timestamp (order_by_timestamp rows))"
  by (simp add: order_by_timestamp_def)

lemma mset_order_by: "mset (order_by_timestamp rows) = mset rows"
  by (simp add: order_by_timestamp_def)

lemma sorted_order_by_id:
  "sorted (map timestamp rows) \<Longrightarrow> order_by_timestamp rows = rows"
  by (simp add: order_by_timestamp_def sort_key_id_if_sorted)

lemma generate_summary_history_order:
  assumes "messages st \<noteq> []" and "sorted (map timestamp (messages st))"
  shows "snd (generate_summary e st) =
     st\<lparr>calls := calls st @ [summary_request (concat (map transcript_line (get_history st)))]\<rparr>"
  using assms by (simp add: generate_summary_nonempty get_history_def sorted_order_by_id)

text \<open>A failed translation in the audio variant is stored like any other text.\<close>

lemma chat_audio_translation_failure:
  assumes "open_wb e (file_path e file) = None"
    and "chat_audio e r lang file st = Inr (m, st')"
    and "translation_try e (original_text m) lang = Inl ex"
  shows "translated_text m = ''[Translation Error] '' @ str_of ex \<and>
         messages st' = messages st @ [m]"
  using assms(2,3) unfolding chat_audio_eq [OF assms(1)]
  by (auto simp: Let_def perform_translation_fst)

section \<open>Evaluation of the examples\<close>

lemmas ex_defs = stub_ok_def stub_down_def stub_quoted_def stub_padded_def tablets_def thanks_def
  voice_note_def recording_def stub_answer_def init_state_def

lemma clock_back_messages:
  "messages clock_back =
     [\<lparr>msg_id = 1, role = ''doctor'', original_text = ''Take two tablets daily'',
        translated_text = ''Tome dos tabletas al d'' @ [CHR 0xC3, CHR 0xAD] @ ''a'',
        original_lang = ''Auto'', target_lang = ''Spanish'', original_audio_url = None,
        timestamp = 10\<rparr>,
      \<lparr>msg_id = 2, role = ''patient'', original_text = ''Gracias'',
        translated_text = ''Thank you'',
        original_lang = ''Auto'', target_lang = ''English'', original_audio_url = None,
        timestamp = 5\<rparr>]"
  by (simp add: clock_back_def chat_text_eq perform_translation_fst translation_try_def
      first_content_def translation_request_def system_prompt_def next_id_def ex_defs Let_def
      strip_def lstrip_def rstrip_def is_space_def is_quote_def)

section \<open>The claims\<close>

text \<open>
  C1. The summary is claimed to format the stored messages in ascending timestamp order.
  \<open>generate_summary\<close> reads the table without an ordering clause, so the lines follow
  the rowid order. In the state \<open>clock_back\<close> the rows have timestamps 10 and 5; the
  history lists the second message first, while the transcript sent to the provider
  has the first message first. Each row still gives exactly one line of the form
  \<open>ROLE: translated (Original: original)\<close>.
\<close>

theorem generate_summary_row_order:
  "map timestamp (messages clock_back) = [10, 5] \<and>
   map original_text (get_history clock_back) = [''Gracias'', ''Take two tablets daily''] \<and>
   last (calls (snd (generate_summary stub_ok clock_back))) =
     summary_request
       (''DOCTOR: Tome dos tabletas al d'' @ [CHR 0xC3, CHR 0xAD] @
        ''a (Original: Take two tablets daily)'' @ [CHR 0x0A] @
        ''PATIENT: Thank you (Original: Gracias)'' @ [CHR 0x0A])"
  by (simp add: generate_summary_nonempty clock_back_messages get_history_def
      order_by_timestamp_def transcript_line_def upper_def upper_char_def)

text \<open>
  C2. The translated text is claimed to have no quote and no whitespace at either end.
  The code strips whitespace first and quotes second, so the whitespace that was inside
  the quotes stays: the answer \<open>" hola "\<close> becomes \<open> hola \<close> with its spaces.
\<close>

theorem translation_keeps_inner_space:
  "fst (perform_translation stub_quoted ''Hello'' ''Spanish'' init_state) = '' hola '' \<and>
   is_space (hd (fst (perform_translation stub_quoted ''Hello'' ''Spanish'' init_state)))"
  by (simp add: perform_translation_fst translation_try_def first_content_def ex_defs
      strip_def lstrip_def rstrip_def is_space_def is_quote_def)

text \<open>
  C2, as the code has it: when the provider answers and the first choice has a text
  content \<open>s\<close>, the result is \<open>s\<close> with surrounding whitespace stripped and then
  surrounding double quotes stripped, and it neither starts nor ends with a double quote.
\<close>

theorem perform_translation_strips:
  assumes "chat_create e (translation_request text lang) = Inr c"
    and "choices c = Some s # rest"
  shows "fst (perform_translation e text lang st) = strip is_quote (strip is_space s) \<and>
         (fst (perform_translation e text lang st) = [] \<or>
            hd (fst (perform_translation e text lang st)) \<noteq> CHR 0x22 \<and>
            last (fst (perform_translation e text lang st)) \<noteq> CHR 0x22)"
proof -
  have r: "fst (perform_translation e text lang st) = strip is_quote (strip is_space s)"
    using assms by (simp add: perform_translation_fst translation_try_def first_content_def)
  show ?thesis
    using strip_ends [of is_quote "strip is_space s"] unfolding r by (auto simp: is_quote_def)
qed

theorem perform_translation_strips_witness:
  "chat_create stub_padded (translation_request ''Hello'' ''Spanish'') =
     Inr \<lparr>choices = [Some ('' '' @ [CHR 0x22] @ ''Hola'' @ [CHR 0x22, CHR 0x0A])]\<rparr> \<and>
   fst (perform_translation stub_padded ''Hello'' ''Spanish'' init_state) = ''Hola''"
  using perform_translation_strips [of stub_padded "''Hello''" "''Spanish''"
      "\<lparr>choices = [Some ('' '' @ [CHR 0x22] @ ''Hola'' @ [CHR 0x22, CHR 0x0A])]\<rparr>"
      "'' '' @ [CHR 0x22] @ ''Hola'' @ [CHR 0x22, CHR 0x0A]" "[]" init_state]
  by (simp add: ex_defs strip_def lstrip_def rstrip_def is_space_def is_quote_def)

text \<open>
  C3. On an empty table \<open>generate_summary\<close> returns the sentence
  \<open>No conversation logs found.\<close> and leaves the state as it was; in particular the
  trace of provider calls does not grow.
\<close>

theorem empty_store_summary:
  "messages st = [] \<Longrightarrow>
   generate_summary e st = (Some ''No conversation logs found.'', st) \<and>
   calls (snd (generate_summary e st)) = calls st"
  by (simp add: generate_summary_def)

theorem empty_store_summary_witness:
  "messages init_state = [] \<and>
   fst (generate_summary stub_down init_state) = Some ''No conversation logs found.'' \<and>
   calls (snd (generate_summary stub_down init_state)) = []"
  using empty_store_summary [of init_state stub_down] by (simp add: init_state_def)

text \<open>
  C4. When the \<open>try\<close> block of \<open>perform_translation\<close> fails with an exception, the
  function returns \<open>[Translation Error] \<close> followed by the exception's text, and
  \<open>chat_text\<close> stores and returns a row with that string as its translation.
\<close>

theorem translation_failure_persisted:
  assumes "translation_try e (mc_text msg) (mc_target_lang msg) = Inl ex"
  shows "fst (perform_translation e (mc_text msg) (mc_target_lang msg) st) =
           ''[Translation Error] '' @ str_of ex \<and>
         translated_text (fst (chat_text e msg st)) = ''[Translation Error] '' @ str_of ex \<and>
         messages (snd (chat_text e msg st)) = messages st @ [fst (chat_text e msg st)]"
  using assms by (simp add: chat_text_eq perform_translation_fst Let_def)

theorem translation_failure_persisted_witness:
  "translation_try stub_down (mc_text tablets) (mc_target_lang tablets) =
     Inl (PyExc ''Connection error.'') \<and>
   translated_text (fst (chat_text stub_down tablets init_state)) =
     ''[Translation Error] Connection error.'' \<and>
   messages (snd (chat_text stub_down tablets init_state)) =
     [fst (chat_text stub_down tablets init_state)]"
proof -
  have h: "translation_try stub_down (mc_text tablets) (mc_target_lang tablets) =
     Inl (PyExc ''Connection error.'')"
    by (simp add: translation_try_def stub_down_def)
  show ?thesis
    using h translation_failure_persisted [OF h, of init_state] by (simp add: init_state_def)
qed

text \<open>
  C5. The row returned by \<open>chat_text\<close> has \<open>original_lang = Auto\<close>, no audio URL, the
  submitted text as \<open>original_text\<close> and the result of \<open>perform_translation\<close> on the
  submitted text and target language as \<open>translated_text\<close>; it is the last row of the
  table.
\<close>

theorem chat_text_message:
  "original_lang (fst (chat_text e msg st)) = ''Auto'' \<and>
   original_audio_url (fst (chat_text e msg st)) = None \<and>
   original_text (fst (chat_text e msg st)) = mc_text msg \<and>
   translated_text (fst (chat_text e msg st)) =
     fst (perform_translation e (mc_text msg) (mc_target_lang msg) st) \<and>
   last (messages (snd (chat_text e msg st))) = fst (chat_text e msg st)"
  by (simp add: chat_text_eq Let_def)

theorem chat_text_message_witness:
  "original_lang (fst (chat_text stub_ok tablets init_state)) = ''Auto'' \<and>
   original_audio_url (fst (chat_text stub_ok tablets init_state)) = None \<and>
   original_text (fst (chat_text stub_ok tablets init_state)) = ''Take two tablets daily'' \<and>
   translated_text (fst (chat_text stub_ok tablets init_state)) =
     ''Tome dos tabletas al d'' @ [CHR 0xC3, CHR 0xAD] @ ''a''"
  using chat_text_message [of stub_ok tablets init_state]
  by (simp add: perform_translation_fst translation_try_def first_content_def ex_defs
      translation_request_def system_prompt_def
      strip_def lstrip_def rstrip_def is_space_def is_quote_def)

text \<open>
  C6. An audio request whose file can be written returns a row with
  \<open>original_lang = Audio-Auto\<close> and a non-empty audio URL: a slash followed by the path
  under which the uploaded bytes are stored.
\<close>

theorem chat_audio_message:
  assumes "open_wb e (file_path e file) = None"
  shows "\<exists>m st'. chat_audio e r lang file st = Inr (m, st') \<and>
           original_lang m = ''Audio-Auto'' \<and>
           original_audio_url m = Some (audio_url e file) \<and>
           audio_url e file \<noteq> [] \<and>
           audio_url e file = ''/'' @ file_path e file \<and>
           files st' (file_path e file) = Some (content file) \<and>
           last (messages st') = m"
  using assms by (simp add: chat_audio_eq Let_def audio_url_def file_path_def)

theorem chat_audio_message_witness:
  "open_wb stub_ok (file_path stub_ok voice_note) = None \<and>
   (\<exists>m st'. chat_audio stub_ok ''patient'' ''English'' voice_note init_state = Inr (m, st') \<and>
      original_lang m = ''Audio-Auto'' \<and>
      original_audio_url m =
        Some ''/static/audio/audio_123e4567-e89b-42d3-a456-426614174000.webm'' \<and>
      files st' ''static/audio/audio_123e4567-e89b-42d3-a456-426614174000.webm'' = Some ''RIFF'')"
proof -
  have h: "open_wb stub_ok (file_path stub_ok voice_note) = None"
    by (simp add: stub_ok_def)
  have u: "audio_url stub_ok voice_note =
      ''/static/audio/audio_123e4567-e89b-42d3-a456-426614174000.webm''"
    by (simp add: audio_url_def blob_filename_def file_ext_def split_def stub_ok_def voice_note_def)
  have p: "file_path stub_ok voice_note =
      ''static/audio/audio_123e4567-e89b-42d3-a456-426614174000.webm''"
    by (simp add: file_path_def blob_filename_def file_ext_def split_def stub_ok_def voice_note_def)
  have c: "content voice_note = ''RIFF''" by (simp add: voice_note_def)
  show ?thesis
    using h chat_audio_message [OF h, of "''patient''" "''English''" init_state]
    unfolding u p c by blast
qed

text \<open>
  C7. When the transcription call raises, the marker \<open>[Transcription Error: ...]\<close> is
  the row's \<open>original_text\<close>, the translation request is issued for that very marker,
  the row's translation is the result of that request, and the row is appended.
\<close>

theorem transcription_failure_flows:
  assumes "open_wb e (file_path e file) = None"
    and "transcriptions_create e (transcription_request e file (content file)) = Inl ex"
  shows "\<exists>m st'. chat_audio e r lang file st = Inr (m, st') \<and>
           original_text m = ''[Transcription Error: '' @ str_of ex @ '']'' \<and>
           translated_text m =
             fst (perform_translation e (''[Transcription Error: '' @ str_of ex @ '']'') lang st) \<and>
           calls st' = calls st @
             [transcription_request e file (content file),
              translation_request (''[Transcription Error: '' @ str_of ex @ '']'') lang] \<and>
           messages st' = messages st @ [m]"
  using assms by (simp add: chat_audio_eq Let_def perform_translation_fst)

theorem transcription_failure_flows_witness:
  "open_wb stub_down (file_path stub_down voice_note) = None \<and>
   transcriptions_create stub_down (transcription_request stub_down voice_note (content voice_note)) =
     Inl (PyExc ''Connection error.'') \<and>
   (\<exists>m st'. chat_audio stub_down ''patient'' ''English'' voice_note init_state = Inr (m, st') \<and>
      original_text m = ''[Transcription Error: Connection error.]'' \<and>
      translated_text m = ''[Translation Error] Connection error.'' \<and>
      messages st' = [m])"
proof -
  have h1: "open_wb stub_down (file_path stub_down voice_note) = None"
    by (simp add: stub_down_def)
  have h2: "transcriptions_create stub_down
      (transcription_request stub_down voice_note (content voice_note)) =
      Inl (PyExc ''Connection error.'')"
    by (simp add: stub_down_def)
  have t: "fst (perform_translation stub_down ''[Transcription Error: Connection error.]''
      ''English'' init_state) = ''[Translation Error] Connection error.''"
    by (simp add: perform_translation_fst translation_try_def stub_down_def)
  have i: "messages init_state = []" by (simp add: init_state_def)
  show ?thesis
    using h1 h2 transcription_failure_flows [OF h1 h2, of "''patient''" "''English''" init_state]
    by (simp add: t i) blast
qed

text \<open>
  C8. In every state the history is sorted by timestamp, non-decreasing, and holds exactly
  the stored rows; it is the empty list on an empty table.
\<close>

theorem get_history_sorted:
  "sorted (map timestamp (get_history st)) \<and>
   mset (get_history st) = mset (messages st) \<and>
   get_history (st\<lparr>messages := []\<rparr>) = []"
  by (simp add: get_history_def order_by_timestamp_def)

theorem get_history_sorted_witness:
  "map timestamp (messages clock_back) = [10, 5] \<and>
   sorted (map timestamp (get_history clock_back)) \<and>
   mset (get_history clock_back) = mset (messages clock_back) \<and>
   get_history init_state = []"
  using get_history_sorted [of clock_back] get_history_sorted [of init_state]
  by (simp add: clock_back_messages init_state_def)

text \<open>
  C9. In every reachable state, a row has an audio URL exactly when it was stored by an
  audio request: row by row, in rowid order, against the list of origins.
\<close>

theorem audio_url_iff_audio_origin:
  "reach os st \<Longrightarrow>
   map (\<lambda>m. original_audio_url m \<noteq> None) (messages st) = map (\<lambda>x. x = FromAudio) os"
proof (induction rule: reach.induct)
  case reach_init
  then show ?case by (simp add: init_state_def)
next
  case (reach_text os st e msg m st')
  then show ?case using chat_text_appends [of e msg st m st'] by simp
next
  case (reach_audio os st e r lang f m st')
  then show ?case using chat_audio_appends [of e r lang f st m st'] by simp
next
  case (reach_summary os st e s st')
  then show ?case using generate_summary_keeps [of e st s st'] by simp
qed

theorem audio_url_iff_audio_origin_witness:
  "reach [FromText, FromAudio] text_then_audio \<and>
   map (\<lambda>m. original_audio_url m \<noteq> None) (messages text_then_audio) = [False, True]"
proof -
  have t: "chat_text stub_ok tablets init_state =
      (fst (chat_text stub_ok tablets init_state), snd (chat_text stub_ok tablets init_state))"
    by simp
  have r1: "reach ([] @ [FromText]) (snd (chat_text stub_ok tablets init_state))"
    by (rule reach_text [OF reach_init t])
  have o: "open_wb stub_ok (file_path stub_ok voice_note) = None"
    by (simp add: stub_ok_def)
  have a: "chat_audio stub_ok ''patient'' ''English'' voice_note
        (snd (chat_text stub_ok tablets init_state)) =
      Inr (fst (projr (chat_audio stub_ok ''patient'' ''English'' voice_note
             (snd (chat_text stub_ok tablets init_state)))), text_then_audio)"
    unfolding text_then_audio_def chat_audio_eq [OF o] Let_def by simp
  have r2: "reach (([] @ [FromText]) @ [FromAudio]) text_then_audio"
    by (rule reach_audio [OF r1 a])
  then have r: "reach [FromText, FromAudio] text_then_audio" by simp
  show ?thesis using r audio_url_iff_audio_origin [OF r] by simp
qed

text \<open>
  C10. The URL stored by an audio request is \<open>/static/audio/audio_\<close>, the UUID, a dot
  and the extension; the extension is the part of the uploaded name after its last dot,
  and the whole name when it has no dot; the uploaded bytes are stored under the same
  name in \<open>static/audio\<close>.
\<close>

theorem blob_name_shape:
  assumes "chat_audio e r lang file st = Inr (m, st')"
  shows "original_audio_url m =
           Some (''/static/audio/audio_'' @ uuid4 e @ ''.'' @ file_ext file) \<and>
         file_ext file = after_last CHR ''.'' (filename file) \<and>
         (CHR ''.'' \<notin> set (filename file) \<longrightarrow> file_ext file = filename file) \<and>
         files st' (''static/audio/audio_'' @ uuid4 e @ ''.'' @ file_ext file) =
           Some (content file)"
proof -
  have o: "open_wb e (file_path e file) = None"
    using assms by (rule chat_audio_Inr_open)
  from chat_audio_eq [OF o, of r lang st] assms
  have "original_audio_url m = Some (audio_url e file)"
    and "files st' (file_path e file) = Some (content file)"
    by (auto simp: Let_def)
  then show ?thesis
    using file_ext_after_last [of "file"] file_ext_no_dot [of "file"]
    by (simp add: audio_url_def file_path_def blob_filename_def)
qed

theorem blob_name_shape_witness:
  "(\<exists>m st'. chat_audio stub_ok ''patient'' ''English'' voice_note init_state = Inr (m, st') \<and>
      original_audio_url m =
        Some ''/static/audio/audio_123e4567-e89b-42d3-a456-426614174000.webm'') \<and>
   (\<exists>m st'. chat_audio stub_ok ''patient'' ''English'' recording init_state = Inr (m, st') \<and>
      CHR ''.'' \<notin> set (filename recording) \<and>
      original_audio_url m =
        Some ''/static/audio/audio_123e4567-e89b-42d3-a456-426614174000.recording'')"
proof -
  have o: "open_wb stub_ok p = None" for p by (simp add: stub_ok_def)
  obtain m1 s1 where h1:
    "chat_audio stub_ok ''patient'' ''English'' voice_note init_state = Inr (m1, s1)"
    using chat_audio_eq [of stub_ok voice_note "''patient''" "''English''" init_state, OF o]
    by (simp add: Let_def)
  obtain m2 s2 where h2:
    "chat_audio stub_ok ''patient'' ''English'' recording init_state = Inr (m2, s2)"
    using chat_audio_eq [of stub_ok recording "''patient''" "''English''" init_state, OF o]
    by (simp add: Let_def)
  have e1: "file_ext voice_note = ''webm''"
    by (simp add: file_ext_def split_def voice_note_def)
  have e2: "file_ext recording = ''recording''"
    by (simp add: file_ext_def split_def recording_def)
  have u: "uuid4 stub_ok = ''123e4567-e89b-42d3-a456-426614174000''"
    by (simp add: stub_ok_def)
  have n: "CHR ''.'' \<notin> set (filename recording)" by (simp add: recording_def)
  from blob_name_shape [OF h1] have "original_audio_url m1 =
      Some ''/static/audio/audio_123e4567-e89b-42d3-a456-426614174000.webm''"
    by (simp add: e1 u)
  moreover from blob_name_shape [OF h2] have "original_audio_url m2 =
      Some ''/static/audio/audio_123e4567-e89b-42d3-a456-426614174000.recording''"
    by (simp add: e2 u)
  ultimately show ?thesis using h1 h2 n by blast
qed

end
